theory Spec2Isabelle
  imports Complex_Main "HOL-Library.Product_Lexorder"
begin

section \<open>TradeForge: position tracking, P&L accounting and the trade ledger\<close>

text \<open>
  A shallow embedding of \<^verbatim>\<open>src/utils.py\<close> (class \<^verbatim>\<open>TradingCalculator\<close>) and
  \<^verbatim>\<open>src/data.py\<close> (class \<^verbatim>\<open>DatabaseManager\<close>).

  Numbers: the source computes with IEEE doubles. The embedding computes with exact
  reals, so rounding is not modelled; the values a double can hold beyond the reals
  that matter to the code (\<^verbatim>\<open>float('inf')\<close>, NaN) are constructors of \<open>pyfloat\<close>,
  and a Python-level division by zero is the error \<open>ZeroDivisionError\<close>.
\<close>

subsection \<open>Errors and Python arithmetic\<close>

datatype error = ZeroDivisionError | KeyError string | ValueError | IntegrityError | OverflowError

text \<open>\<^verbatim>\<open>a / b\<close> on Python floats.\<close>

definition py_div :: "real \<Rightarrow> real \<Rightarrow> error + real" where
  "py_div a b = (if b = 0 then Inl ZeroDivisionError else Inr (a / b))"

text \<open>\<^verbatim>\<open>int(x)\<close> on a float: truncation towards zero.\<close>

definition py_int :: "real \<Rightarrow> int" where
  "py_int x = (if 0 \<le> x then \<lfloor>x\<rfloor> else \<lceil>x\<rceil>)"

subsection \<open>Risk sizing: \<^verbatim>\<open>TradingCalculator.calculate_risk_metrics\<close>\<close>

text \<open>
  The \<^verbatim>\<open>trade_data\<close> dictionary: \<^verbatim>\<open>price\<close> is read with \<^verbatim>\<open>trade_data['price']\<close>
  (a missing key raises), the other keys with \<^verbatim>\<open>.get(key, default)\<close>.
\<close>

record risk_data =
  rd_price :: "real option"
  rd_stop_loss_pct :: "real option"
  rd_win_rate :: "real option"
  rd_avg_win :: "real option"
  rd_avg_loss :: "real option"

record risk_metrics =
  one_percent_risk :: real
  max_shares_1pct :: int
  kelly_percentage :: real
  recommended_position_size :: int

definition dict_get :: "'a option \<Rightarrow> 'a \<Rightarrow> 'a" where
  "dict_get v d = (case v of None \<Rightarrow> d | Some x \<Rightarrow> x)"

text \<open>Lines 174-183 of \<^verbatim>\<open>utils.py\<close>: the Kelly criterion block.\<close>

definition kelly_pct :: "risk_data \<Rightarrow> error + real" where
  "kelly_pct trade_data =
     (let win_rate = dict_get (rd_win_rate trade_data) (1/2);
          avg_win = dict_get (rd_avg_win trade_data) 0;
          avg_loss = dict_get (rd_avg_loss trade_data) 0
      in if avg_loss \<noteq> 0 then
           (case py_div (win_rate * avg_win - (1 - win_rate) * \<bar>avg_loss\<bar>) avg_win of
              Inl e \<Rightarrow> Inl e
            | Inr k \<Rightarrow> Inr (max 0 (min k (1/4))))
         else Inr 0)"

definition calculate_risk_metrics :: "real \<Rightarrow> risk_data \<Rightarrow> error + risk_metrics" where
  "calculate_risk_metrics account_value trade_data =
     (let one_pct = account_value * (1/100);
          stop_loss_pct = dict_get (rd_stop_loss_pct trade_data) (2/100)
      in case rd_price trade_data of
           None \<Rightarrow> Inl (KeyError ''price'')
         | Some price \<Rightarrow>
             (let risk_per_share = price * stop_loss_pct in
              case (if risk_per_share > 0
                    then (case py_div one_pct risk_per_share of
                            Inl e \<Rightarrow> Inl e | Inr q \<Rightarrow> Inr (py_int q))
                    else Inr 0) of
                Inl e \<Rightarrow> Inl e
              | Inr max_shares \<Rightarrow>
                  (case kelly_pct trade_data of
                     Inl e \<Rightarrow> Inl e
                   | Inr k \<Rightarrow>
                       (case py_div (account_value * k) price of
                          Inl e \<Rightarrow> Inl e
                        | Inr q \<Rightarrow>
                            Inr \<lparr> one_percent_risk = one_pct,
                                  max_shares_1pct = max_shares,
                                  kelly_percentage = k,
                                  recommended_position_size = min max_shares (py_int q) \<rparr>))))"


subsection \<open>Trade rows\<close>

text \<open>
  A timestamp is (year, month, offset within the month); the lexicographic order of the
  triple is the chronological order, and \<^verbatim>\<open>.dt.to_period('M')\<close> keeps the first two
  components.
\<close>

type_synonym datetime = "nat \<times> nat \<times> nat"

definition to_period_M :: "datetime \<Rightarrow> nat \<times> nat" where
  "to_period_M d = (fst d, fst (snd d))"

text \<open>
  One row of the \<^verbatim>\<open>trades\<close> table (class \<^verbatim>\<open>Trade\<close> of \<^verbatim>\<open>data.py\<close>), which is also one
  row of the DataFrame that \<^verbatim>\<open>get_trades\<close> builds from it, column by column. The rows of
  a DataFrame are a list; the row label (\<^verbatim>\<open>idx\<close>) is the position in the list, as in the
  default index of \<^verbatim>\<open>pd.DataFrame(data)\<close>.
\<close>

record trade =
  trade_id :: nat
  date :: datetime
  ticker :: string
  asset_type :: string
  trade_type :: string
  price :: real
  quantity :: real
  fees :: real
  trade_notes :: string
  option_type :: "string option"
  strike_price :: "real option"
  expiration_date :: "datetime option"
  premium :: "real option"
  strategy :: "string option"
  total_cost :: real
  realized_pnl :: real
  unrealized_pnl :: real
  currency :: string
  market :: string

text \<open>
  A DataFrame of trades: \<open>Frame\<close> has the columns of the rows (and any number of rows,
  also none); \<open>NoColumns\<close> is \<^verbatim>\<open>pd.DataFrame([])\<close>, the frame without rows and without
  columns that \<^verbatim>\<open>get_trades\<close> builds from an empty table.
\<close>

datatype frame = NoColumns | Frame "trade list"

definition frame_rows :: "frame \<Rightarrow> trade list" where
  "frame_rows f = (case f of NoColumns \<Rightarrow> [] | Frame df \<Rightarrow> df)"

subsection \<open>Cost-basis replay: \<^verbatim>\<open>TradingCalculator.calculate_pnl\<close>\<close>

text \<open>The three running variables of the loop over one ticker (lines 28-30).\<close>

record position_state =
  st_position :: real
  st_total_cost :: real
  st_realized_pnl :: real

definition init_state :: position_state where
  "init_state = \<lparr> st_position = 0, st_total_cost = 0, st_realized_pnl = 0 \<rparr>"

text \<open>
  The body of the inner loop before the write-back (lines 33-46). Every trade type other
  than \<^verbatim>\<open>'Buy'\<close> takes the \<^verbatim>\<open>else\<close> branch. Both divisions are checked divisions.
\<close>

definition replay_trade :: "position_state \<Rightarrow> trade \<Rightarrow> error + position_state" where
  "replay_trade s trade =
     (if trade_type trade = ''Buy'' then
        Inr (s\<lparr> st_position := st_position s + quantity trade,
                st_total_cost := st_total_cost s + total_cost trade \<rparr>)
      else if st_position s > 0 then
        (case (if st_position s > 0 then py_div (st_total_cost s) (st_position s) else Inr 0) of
           Inl e \<Rightarrow> Inl e
         | Inr avg_cost \<Rightarrow>
             (let trade_pnl = (price trade - avg_cost) * quantity trade - fees trade;
                  new_realized = st_realized_pnl s + trade_pnl;
                  new_position = st_position s - quantity trade
              in case (if new_position > 0
                       then (case py_div new_position (new_position + quantity trade) of
                               Inl e \<Rightarrow> Inl e
                             | Inr f \<Rightarrow> Inr (st_total_cost s * f))
                       else Inr 0) of
                   Inl e \<Rightarrow> Inl e
                 | Inr new_cost \<Rightarrow>
                     Inr \<lparr> st_position = new_position, st_total_cost = new_cost,
                           st_realized_pnl = new_realized \<rparr>))
      else Inr s)"

text \<open>
  The inner loop (lines 32-50) over the sorted rows of one ticker, each with its row
  label: replay the trade, then write the running total into the frame at that label.
\<close>

fun replay_rows :: "position_state \<Rightarrow> (nat \<times> trade) list \<Rightarrow> trade list \<Rightarrow> error + trade list" where
  "replay_rows s [] df = Inr df"
| "replay_rows s ((idx, trade) # rest) df =
     (case replay_trade s trade of
        Inl e \<Rightarrow> Inl e
      | Inr s' \<Rightarrow>
          replay_rows s' rest
            (df[idx := (df ! idx)\<lparr> realized_pnl := st_realized_pnl s', unrealized_pnl := 0 \<rparr>]))"

text \<open>
  \<^verbatim>\<open>df[df['ticker'] == ticker].sort_values('date')\<close>: the rows of the ticker with their
  labels, sorted by date. The sort is modelled as the stable \<open>sort_key\<close>: rows of equal
  date keep their order in the frame. pandas sorts with an unstable quicksort, so for
  rows of one ticker with equal dates the order of the source may differ from the one
  here; where the dates of a ticker are distinct there is one sorted order.
\<close>

definition ticker_trades :: "string \<Rightarrow> trade list \<Rightarrow> (nat \<times> trade) list" where
  "ticker_trades t df =
     sort_key (\<lambda>(idx, trade). date trade)
       (filter (\<lambda>(idx, trade). ticker trade = t) (enumerate 0 df))"

text \<open>\<^verbatim>\<open>Series.unique()\<close>: the distinct values in order of first appearance.\<close>

definition unique :: "'a list \<Rightarrow> 'a list" where
  "unique xs = rev (remdups (rev xs))"

fun calculate_pnl_loop :: "string list \<Rightarrow> trade list \<Rightarrow> error + trade list" where
  "calculate_pnl_loop [] df = Inr df"
| "calculate_pnl_loop (t # ts) df =
     (case replay_rows init_state (ticker_trades t df) df of
        Inl e \<Rightarrow> Inl e
      | Inr df' \<Rightarrow> calculate_pnl_loop ts df')"

text \<open>
  Lines 20-52. On the frame without columns \<^verbatim>\<open>df['ticker']\<close> raises; on a frame with
  columns and no rows the outer loop has nothing to do.
\<close>

definition calculate_pnl :: "frame \<Rightarrow> error + frame" where
  "calculate_pnl trades_df =
     (case trades_df of
        NoColumns \<Rightarrow> Inl (KeyError ''ticker'')
      | Frame df \<Rightarrow>
          (case calculate_pnl_loop (unique (map ticker df)) df of
             Inl e \<Rightarrow> Inl e
           | Inr out \<Rightarrow> Inr (Frame out)))"

subsection \<open>Aggregate metrics: \<^verbatim>\<open>TradingCalculator.calculate_metrics\<close>\<close>

datatype pyfloat = Fin real | PosInf | NaN

text \<open>Series reductions; pandas returns NaN on an empty series.\<close>

definition series_mean :: "real list \<Rightarrow> pyfloat" where
  "series_mean xs = (if xs = [] then NaN else Fin (sum_list xs / real (length xs)))"

definition series_max :: "real list \<Rightarrow> pyfloat" where
  "series_max xs = (case xs of [] \<Rightarrow> NaN | x # rest \<Rightarrow> Fin (fold max rest x))"

definition series_min :: "real list \<Rightarrow> pyfloat" where
  "series_min xs = (case xs of [] \<Rightarrow> NaN | x # rest \<Rightarrow> Fin (fold min rest x))"

text \<open>\<^verbatim>\<open>.cumsum()\<close> and \<^verbatim>\<open>.expanding().max()\<close>, in the order of the rows.\<close>

fun cumsum_from :: "real \<Rightarrow> real list \<Rightarrow> real list" where
  "cumsum_from acc [] = []"
| "cumsum_from acc (x # xs) = (acc + x) # cumsum_from (acc + x) xs"

definition cumsum :: "real list \<Rightarrow> real list" where
  "cumsum xs = cumsum_from 0 xs"

fun expanding_max_from :: "real \<Rightarrow> real list \<Rightarrow> real list" where
  "expanding_max_from m [] = []"
| "expanding_max_from m (x # xs) = max m x # expanding_max_from (max m x) xs"

definition expanding_max :: "real list \<Rightarrow> real list" where
  "expanding_max xs = (case xs of [] \<Rightarrow> [] | x # rest \<Rightarrow> x # expanding_max_from x rest)"

text \<open>Lines 124-127: the drawdown series and its minimum.\<close>

definition drawdown :: "real list \<Rightarrow> real list" where
  "drawdown pnl = map2 (\<lambda>c m. c - m) (cumsum pnl) (expanding_max (cumsum pnl))"

definition max_drawdown :: "trade list \<Rightarrow> pyfloat" where
  "max_drawdown trades_df = series_min (drawdown (map realized_pnl trades_df))"

text \<open>Lines 108-121: win/loss analysis.\<close>

definition realized_trades :: "trade list \<Rightarrow> trade list" where
  "realized_trades trades_df = filter (\<lambda>r. realized_pnl r \<noteq> 0) trades_df"

definition winning_trades :: "trade list \<Rightarrow> trade list" where
  "winning_trades trades_df = filter (\<lambda>r. realized_pnl r > 0) (realized_trades trades_df)"

definition losing_trades :: "trade list \<Rightarrow> trade list" where
  "losing_trades trades_df = filter (\<lambda>r. realized_pnl r < 0) (realized_trades trades_df)"

definition win_rate :: "trade list \<Rightarrow> error + real" where
  "win_rate trades_df =
     (if realized_trades trades_df \<noteq> [] then
        (case py_div (real (length (winning_trades trades_df)))
                     (real (length (realized_trades trades_df))) of
           Inl e \<Rightarrow> Inl e
         | Inr q \<Rightarrow> Inr (q * 100))
      else Inr 0)"

definition avg_win :: "trade list \<Rightarrow> pyfloat" where
  "avg_win trades_df =
     (if realized_trades trades_df \<noteq> [] then
        (if length (winning_trades trades_df) > 0
         then series_mean (map realized_pnl (winning_trades trades_df)) else Fin 0)
      else Fin 0)"

definition avg_loss :: "trade list \<Rightarrow> pyfloat" where
  "avg_loss trades_df =
     (if realized_trades trades_df \<noteq> [] then
        (if length (losing_trades trades_df) > 0
         then series_mean (map realized_pnl (losing_trades trades_df)) else Fin 0)
      else Fin 0)"

definition profit_factor :: "trade list \<Rightarrow> pyfloat" where
  "profit_factor trades_df =
     (if realized_trades trades_df \<noteq> [] then
        (if length (losing_trades trades_df) > 0
            \<and> sum_list (map realized_pnl (losing_trades trades_df)) \<noteq> 0
         then Fin \<bar>sum_list (map realized_pnl (winning_trades trades_df))
                   / sum_list (map realized_pnl (losing_trades trades_df))\<bar>
         else PosInf)
      else Fin 0)"

text \<open>
  Lines 130-134: the simplified Sharpe ratio. \<^verbatim>\<open>pct_change().dropna()\<close> over the non-zero
  realized values; the sample standard deviation (\<^verbatim>\<open>ddof=1\<close>) of a single return is NaN,
  NaN differs from 0, and the quotient is then NaN.
\<close>

fun pct_change :: "real list \<Rightarrow> real list" where
  "pct_change (x # y # rest) = ((y - x) / x) # pct_change (y # rest)"
| "pct_change _ = []"

definition series_std :: "real list \<Rightarrow> pyfloat" where
  "series_std xs =
     (if length xs < 2 then NaN
      else (let m = sum_list xs / real (length xs)
            in Fin (sqrt (sum_list (map (\<lambda>x. (x - m)\<^sup>2) xs) / real (length xs - 1)))))"

definition sharpe_ratio :: "trade list \<Rightarrow> pyfloat" where
  "sharpe_ratio trades_df =
     (if length (realized_trades trades_df) > 1 then
        (let returns = pct_change (map realized_pnl (realized_trades trades_df))
         in case series_std returns of
              Fin sd \<Rightarrow>
                (if sd \<noteq> 0
                 then (case series_mean returns of
                         Fin m \<Rightarrow> Fin (m / sd * sqrt 252) | other \<Rightarrow> NaN)
                 else Fin 0)
            | other \<Rightarrow> NaN)
      else Fin 0)"

text \<open>Lines 141-144: realized P&L summed per calendar month of the trade date.\<close>

definition monthly_pnl :: "trade list \<Rightarrow> real list" where
  "monthly_pnl trades_df =
     map (\<lambda>m. sum_list (map realized_pnl (filter (\<lambda>r. to_period_M (date r) = m) trades_df)))
       (unique (map (\<lambda>r. to_period_M (date r)) trades_df))"

text \<open>
  The returned dictionary, as the list of its items in the order of the source: empty for
  a frame without rows (\<^verbatim>\<open>trades_df.empty\<close>, lines 100-101), the fourteen metrics otherwise. The \<^verbatim>\<open>month\<close> column
  that line 141 adds to the caller's frame is not part of the result and is left out.
\<close>

definition calculate_metrics :: "frame \<Rightarrow> error + (string \<times> pyfloat) list" where
  "calculate_metrics frame =
     (let trades_df = frame_rows frame in
      if trades_df = [] then Inr []
      else
        (let total_trades = length trades_df;
             total_pnl = sum_list (map realized_pnl trades_df)
                         + sum_list (map unrealized_pnl trades_df)
         in case win_rate trades_df of
              Inl e \<Rightarrow> Inl e
            | Inr wr \<Rightarrow>
                Inr [(''total_trades'', Fin (real total_trades)),
                     (''total_pnl'', Fin total_pnl),
                     (''win_rate'', Fin wr),
                     (''avg_win'', avg_win trades_df),
                     (''avg_loss'', avg_loss trades_df),
                     (''profit_factor'', profit_factor trades_df),
                     (''max_drawdown'', max_drawdown trades_df),
                     (''sharpe_ratio'', sharpe_ratio trades_df),
                     (''largest_win'', series_max (map realized_pnl trades_df)),
                     (''largest_loss'', series_min (map realized_pnl trades_df)),
                     (''best_month'', series_max (monthly_pnl trades_df)),
                     (''worst_month'', series_min (monthly_pnl trades_df)),
                     (''total_volume'', Fin (sum_list (map total_cost trades_df))),
                     (''avg_trade_size'', series_mean (map total_cost trades_df))]))"

text \<open>Reading a key of the returned dictionary.\<close>

definition metric :: "(string \<times> pyfloat) list \<Rightarrow> string \<Rightarrow> pyfloat option" where
  "metric m k = map_of m k"


subsection \<open>The ledger: \<^verbatim>\<open>DatabaseManager\<close>\<close>

text \<open>
  The \<^verbatim>\<open>trades\<close> table: its rows in insertion order. Failures of the database engine
  itself (a full disk, a locked file) are not modelled.
\<close>

record ledger =
  rows :: "trade list"

text \<open>
  The dictionary given to \<^verbatim>\<open>add_trade\<close>: the keys read with \<^verbatim>\<open>trade_data[key]\<close> are
  fields, the keys read with \<^verbatim>\<open>.get\<close> are optional.
\<close>

record trade_data =
  td_date :: datetime
  td_ticker :: string
  td_asset_type :: string
  td_trade_type :: string
  td_price :: real
  td_quantity :: real
  td_fees :: "real option"
  td_notes :: "string option"
  td_option_type :: "string option"
  td_strike_price :: "real option"
  td_expiration_date :: "datetime option"
  td_premium :: "real option"
  td_strategy :: "string option"

definition endswith :: "string \<Rightarrow> string \<Rightarrow> bool" where
  "endswith s suf = (length suf \<le> length s \<and> drop (length s - length suf) s = suf)"

text \<open>
  The key of a new row. The column is declared \<^verbatim>\<open>Integer, primary_key=True\<close>, which in
  SQLite is the row id: one more than the largest key in the table, 1 in an empty table
  (a table that holds the largest 64-bit key is not modelled).
\<close>

definition next_id :: "ledger \<Rightarrow> nat" where
  "next_id db = fold max (map trade_id (rows db)) 0 + 1"

text \<open>
  Lines 67-105. The columns \<^verbatim>\<open>realized_pnl\<close> and \<^verbatim>\<open>unrealized_pnl\<close> take their default
  0.0. Nothing in the function looks at the sign of price or quantity.
\<close>

definition add_trade :: "ledger \<Rightarrow> trade_data \<Rightarrow> ledger \<times> nat" where
  "add_trade db td =
     (let cost = td_price td * td_quantity td + dict_get (td_fees td) 0;
          cur = (if endswith (td_ticker td) ''.HK'' then ''HKD'' else ''USD'');
          mkt = (if endswith (td_ticker td) ''.HK'' then ''HK'' else ''US'');
          new_id = next_id db;
          new_trade = \<lparr> trade_id = new_id, date = td_date td, ticker = td_ticker td,
                        asset_type = td_asset_type td, trade_type = td_trade_type td,
                        price = td_price td, quantity = td_quantity td,
                        fees = dict_get (td_fees td) 0,
                        trade_notes = dict_get (td_notes td) [],
                        option_type = td_option_type td, strike_price = td_strike_price td,
                        expiration_date = td_expiration_date td, premium = td_premium td,
                        strategy = td_strategy td, total_cost = cost,
                        realized_pnl = 0, unrealized_pnl = 0, currency = cur, market = mkt \<rparr>
      in (\<lparr> rows = rows db @ [new_trade] \<rparr>, new_id))"

text \<open>
  Lines 107-142: all rows, latest date first (\<^verbatim>\<open>order_by(Trade.date.desc())\<close>), rows of
  equal date in the order of their insertion, cut to \<^verbatim>\<open>limit\<close> rows when a non-zero
  limit is given. Without rows the frame is \<^verbatim>\<open>pd.DataFrame([])\<close>.
\<close>

definition get_trades :: "ledger \<Rightarrow> nat option \<Rightarrow> frame" where
  "get_trades db limit =
     (let trades = rev (sort_key date (rev (rows db)));
          data = (case limit of
                    None \<Rightarrow> trades
                  | Some n \<Rightarrow> (if n \<noteq> 0 then take n trades else trades))
      in if data = [] then NoColumns else Frame data)"

text \<open>
  The items of the dictionary given to \<^verbatim>\<open>update_trade\<close>: a column of \<^verbatim>\<open>Trade\<close> with a
  value of the type of that column (for a nullable column also \<^verbatim>\<open>None\<close>), or a key that
  is no attribute of \<^verbatim>\<open>Trade\<close>. What SQLite makes of a value of another type is not
  modelled.
\<close>

datatype field_update =
    SetId nat
  | SetDate datetime
  | SetTicker string
  | SetAssetType string
  | SetTradeType string
  | SetPrice real
  | SetQuantity real
  | SetFees real
  | SetNotes string
  | SetOptionType "string option"
  | SetStrikePrice "real option"
  | SetExpirationDate "datetime option"
  | SetPremium "real option"
  | SetStrategy "string option"
  | SetTotalCost real
  | SetRealizedPnl real
  | SetUnrealizedPnl real
  | SetCurrency string
  | SetMarket string
  | OtherKey string

text \<open>Lines 153-155: \<^verbatim>\<open>setattr\<close> for the keys that \<^verbatim>\<open>hasattr\<close> accepts, over all items.\<close>

fun setattr :: "field_update \<Rightarrow> trade \<Rightarrow> trade" where
  "setattr (SetId x) tr = tr\<lparr> trade_id := x \<rparr>"
| "setattr (SetDate x) tr = tr\<lparr> date := x \<rparr>"
| "setattr (SetTicker x) tr = tr\<lparr> ticker := x \<rparr>"
| "setattr (SetAssetType x) tr = tr\<lparr> asset_type := x \<rparr>"
| "setattr (SetTradeType x) tr = tr\<lparr> trade_type := x \<rparr>"
| "setattr (SetPrice x) tr = tr\<lparr> price := x \<rparr>"
| "setattr (SetQuantity x) tr = tr\<lparr> quantity := x \<rparr>"
| "setattr (SetFees x) tr = tr\<lparr> fees := x \<rparr>"
| "setattr (SetNotes x) tr = tr\<lparr> trade_notes := x \<rparr>"
| "setattr (SetOptionType x) tr = tr\<lparr> option_type := x \<rparr>"
| "setattr (SetStrikePrice x) tr = tr\<lparr> strike_price := x \<rparr>"
| "setattr (SetExpirationDate x) tr = tr\<lparr> expiration_date := x \<rparr>"
| "setattr (SetPremium x) tr = tr\<lparr> premium := x \<rparr>"
| "setattr (SetStrategy x) tr = tr\<lparr> strategy := x \<rparr>"
| "setattr (SetTotalCost x) tr = tr\<lparr> total_cost := x \<rparr>"
| "setattr (SetRealizedPnl x) tr = tr\<lparr> realized_pnl := x \<rparr>"
| "setattr (SetUnrealizedPnl x) tr = tr\<lparr> unrealized_pnl := x \<rparr>"
| "setattr (SetCurrency x) tr = tr\<lparr> currency := x \<rparr>"
| "setattr (SetMarket x) tr = tr\<lparr> market := x \<rparr>"
| "setattr (OtherKey k) tr = tr"

definition update_fields :: "trade \<Rightarrow> field_update list \<Rightarrow> trade" where
  "update_fields tr items = fold setattr items tr"

text \<open>
  \<^verbatim>\<open>session.query(Trade).filter(Trade.id == trade_id).first()\<close>. The id is any Python
  integer; the SQLite driver binds it as a signed 64-bit integer and raises
  \<^verbatim>\<open>OverflowError\<close> for a value outside that range.
\<close>

definition in_int64 :: "int \<Rightarrow> bool" where
  "in_int64 i = (- (2 ^ 63) \<le> i \<and> i \<le> 2 ^ 63 - 1)"

definition query_first :: "ledger \<Rightarrow> int \<Rightarrow> error + trade option" where
  "query_first db i =
     (if in_int64 i then Inr (find (\<lambda>tr. int (trade_id tr) = i) (rows db))
      else Inl OverflowError)"

text \<open>
  Lines 144-166. The result is the new table and the returned boolean, or the raised
  error (after the rollback, so with the table as it was). The commit fails when the
  new key of the row is the key of another row, or is too large for the driver.
\<close>

definition update_trade :: "ledger \<Rightarrow> int \<Rightarrow> field_update list \<Rightarrow> error + ledger \<times> bool" where
  "update_trade db i items =
     (case query_first db i of
        Inl e \<Rightarrow> Inl e
      | Inr None \<Rightarrow> Inr (db, False)
      | Inr (Some tr) \<Rightarrow>
          (let tr' = update_fields tr items;
               tr'' = tr'\<lparr> total_cost := price tr' * quantity tr' + fees tr' \<rparr>;
               new_rows = map (\<lambda>r. if int (trade_id r) = i then tr'' else r) (rows db)
           in if \<not> in_int64 (int (trade_id tr'')) then Inl OverflowError
              else if int (trade_id tr'') \<noteq> i \<and> trade_id tr'' \<in> set (map trade_id (rows db))
              then Inl IntegrityError
              else Inr (db\<lparr> rows := new_rows \<rparr>, True)))"

text \<open>Lines 168-183.\<close>

definition delete_trade :: "ledger \<Rightarrow> int \<Rightarrow> error + ledger \<times> bool" where
  "delete_trade db i =
     (case query_first db i of
        Inl e \<Rightarrow> Inl e
      | Inr None \<Rightarrow> Inr (db, False)
      | Inr (Some tr) \<Rightarrow>
          Inr (db\<lparr> rows := filter (\<lambda>r. int (trade_id r) \<noteq> i) (rows db) \<rparr>, True))"

text \<open>
  One row of the frame read from the CSV file, after \<^verbatim>\<open>pd.read_csv\<close>. A column that the
  file does not have is \<open>None\<close>. A numeric cell holds a number or text that \<^verbatim>\<open>float\<close>
  rejects; a date cell holds text that \<^verbatim>\<open>pd.to_datetime\<close> parses or rejects. Text
  columns are given as \<^verbatim>\<open>str\<close> returns them. Empty cells are not modelled.
\<close>

datatype cell = Number real | Text string

datatype date_cell = Stamp datetime | NotADate string

record csv_row =
  c_date :: "date_cell option"
  c_ticker :: "string option"
  c_asset_type :: "string option"
  c_trade_type :: "string option"
  c_price :: "cell option"
  c_quantity :: "cell option"
  c_fees :: "cell option"
  c_notes :: "string option"
  c_option_type :: "string option"
  c_strike_price :: "real option"
  c_expiration_date :: "date_cell option"
  c_premium :: "real option"
  c_strategy :: "string option"

definition row_key :: "'a option \<Rightarrow> string \<Rightarrow> error + 'a" where
  "row_key v key = (case v of None \<Rightarrow> Inl (KeyError key) | Some x \<Rightarrow> Inr x)"

definition py_float :: "cell \<Rightarrow> error + real" where
  "py_float c = (case c of Number x \<Rightarrow> Inr x | Text s \<Rightarrow> Inl ValueError)"

definition to_datetime :: "date_cell \<Rightarrow> error + datetime" where
  "to_datetime c = (case c of Stamp d \<Rightarrow> Inr d | NotADate s \<Rightarrow> Inl ValueError)"

definition bind_err :: "error + 'a \<Rightarrow> ('a \<Rightarrow> error + 'b) \<Rightarrow> error + 'b" where
  "bind_err m f = (case m of Inl e \<Rightarrow> Inl e | Inr x \<Rightarrow> f x)"

text \<open>Lines 256-270: the dictionary built from one row, in the order of its entries.\<close>

definition row_trade_data :: "csv_row \<Rightarrow> error + trade_data" where
  "row_trade_data row =
     bind_err (bind_err (row_key (c_date row) ''date'') to_datetime) (\<lambda>d.
     bind_err (row_key (c_ticker row) ''ticker'') (\<lambda>tk.
     bind_err (row_key (c_trade_type row) ''trade_type'') (\<lambda>ty.
     bind_err (bind_err (row_key (c_price row) ''price'') py_float) (\<lambda>p.
     bind_err (bind_err (row_key (c_quantity row) ''quantity'') py_float) (\<lambda>q.
     bind_err (py_float (dict_get (c_fees row) (Number 0))) (\<lambda>f.
     bind_err (case c_expiration_date row of
                 None \<Rightarrow> Inr None
               | Some c \<Rightarrow> bind_err (to_datetime c) (\<lambda>e. Inr (Some e))) (\<lambda>ex.
     Inr \<lparr> td_date = d, td_ticker = tk,
           td_asset_type = dict_get (c_asset_type row) ''Stock'',
           td_trade_type = ty, td_price = p, td_quantity = q, td_fees = Some f,
           td_notes = Some (dict_get (c_notes row) []),
           td_option_type = c_option_type row, td_strike_price = c_strike_price row,
           td_expiration_date = ex, td_premium = c_premium row,
           td_strategy = c_strategy row \<rparr>)))))))"

text \<open>
  Lines 254-276: the loop over the rows. A row whose conversion raises is counted as
  failed and skipped; every other row is added.
\<close>

fun import_rows :: "ledger \<Rightarrow> nat \<Rightarrow> nat \<Rightarrow> csv_row list \<Rightarrow> ledger \<times> nat \<times> nat" where
  "import_rows db successful failed [] = (db, successful, failed)"
| "import_rows db successful failed (row # rest) =
     (case row_trade_data row of
        Inl e \<Rightarrow> import_rows db successful (failed + 1) rest
      | Inr td \<Rightarrow> import_rows (fst (add_trade db td)) (successful + 1) failed rest)"

text \<open>
  Lines 247-281; \<open>None\<close> is a file that \<^verbatim>\<open>pd.read_csv\<close> cannot read, answered with
  \<^verbatim>\<open>(0, 0)\<close>.
\<close>

definition import_from_csv :: "ledger \<Rightarrow> csv_row list option \<Rightarrow> ledger \<times> nat \<times> nat" where
  "import_from_csv db file =
     (case file of None \<Rightarrow> (db, 0, 0) | Some df \<Rightarrow> import_rows db 0 0 df)"


subsection \<open>Scenarios\<close>

definition empty_ledger :: ledger where
  "empty_ledger = \<lparr> rows = [] \<rparr>"

text \<open>The dictionary that the stock form of \<^verbatim>\<open>app.py\<close> (lines 477-487) hands to \<^verbatim>\<open>add_trade\<close>.\<close>

definition stock_order :: "datetime \<Rightarrow> string \<Rightarrow> string \<Rightarrow> real \<Rightarrow> real \<Rightarrow> real \<Rightarrow> trade_data" where
  "stock_order d tk ty p q f =
     \<lparr> td_date = d, td_ticker = tk, td_asset_type = ''Stock'', td_trade_type = ty,
       td_price = p, td_quantity = q, td_fees = Some f, td_notes = Some [],
       td_option_type = None, td_strike_price = None, td_expiration_date = None,
       td_premium = None, td_strategy = None \<rparr>"

definition add_all :: "ledger \<Rightarrow> trade_data list \<Rightarrow> ledger" where
  "add_all db tds = fold (\<lambda>td acc. fst (add_trade acc td)) tds db"

text \<open>Scenario A: buy 10 at 100, then sell 10 at 120, no fees; the frame as the ledger returns it.\<close>

definition scenario_A :: frame where
  "scenario_A = get_trades (add_all empty_ledger
     [stock_order (2024, 1, 1) ''AAPL'' ''Buy'' 100 10 0,
      stock_order (2024, 1, 2) ''AAPL'' ''Sell'' 120 10 0]) None"

text \<open>Scenario B: buy 10 at 100, sell 5 at 90, sell 5 at 110, no fees.\<close>

definition scenario_B :: frame where
  "scenario_B = get_trades (add_all empty_ledger
     [stock_order (2024, 1, 1) ''AAPL'' ''Buy'' 100 10 0,
      stock_order (2024, 1, 2) ''AAPL'' ''Sell'' 90 5 0,
      stock_order (2024, 1, 3) ''AAPL'' ''Sell'' 110 5 0]) None"

text \<open>A round trip with a gain on one instrument, then a round trip with a loss on another.\<close>

definition scenario_gain_then_loss :: frame where
  "scenario_gain_then_loss = get_trades (add_all empty_ledger
     [stock_order (2024, 1, 1) ''AAPL'' ''Buy'' 100 10 0,
      stock_order (2024, 1, 2) ''AAPL'' ''Sell'' 120 10 0,
      stock_order (2024, 1, 3) ''MSFT'' ''Buy'' 100 10 0,
      stock_order (2024, 1, 4) ''MSFT'' ''Sell'' 90 10 0]) None"

text \<open>A buy, a closing sell, and a later buy of the same instrument.\<close>

definition scenario_buy_after_sell :: frame where
  "scenario_buy_after_sell = get_trades (add_all empty_ledger
     [stock_order (2024, 1, 1) ''AAPL'' ''Buy'' 100 10 0,
      stock_order (2024, 1, 2) ''AAPL'' ''Sell'' 120 10 0,
      stock_order (2024, 1, 3) ''AAPL'' ''Buy'' 110 1 0]) None"

text \<open>Scenario E: a CSV file of five rows, the third with a negative quantity.\<close>

definition csv_stock_row :: "datetime \<Rightarrow> string \<Rightarrow> string \<Rightarrow> real \<Rightarrow> real \<Rightarrow> csv_row" where
  "csv_stock_row d tk ty p q =
     \<lparr> c_date = Some (Stamp d), c_ticker = Some tk, c_asset_type = None,
       c_trade_type = Some ty, c_price = Some (Number p), c_quantity = Some (Number q),
       c_fees = None, c_notes = None, c_option_type = None, c_strike_price = None,
       c_expiration_date = None, c_premium = None, c_strategy = None \<rparr>"

definition scenario_E :: "csv_row list" where
  "scenario_E =
     [csv_stock_row (2024, 1, 1) ''AAPL'' ''Buy'' 100 10,
      csv_stock_row (2024, 1, 2) ''MSFT'' ''Buy'' 50 10,
      csv_stock_row (2024, 1, 3) ''NVDA'' ''Buy'' 200 (- 5),
      csv_stock_row (2024, 1, 4) ''KO'' ''Buy'' 60 10,
      csv_stock_row (2024, 1, 5) ''AAPL'' ''Sell'' 110 10]"

text \<open>Single rows as the ledger stores them: a sell and a buy of 10 units.\<close>

definition lone_sell :: trade where
  "lone_sell = hd (frame_rows (get_trades (add_all empty_ledger
     [stock_order (2024, 1, 1) ''AAPL'' ''Sell'' 120 10 0]) None))"

definition lone_buy :: trade where
  "lone_buy = hd (frame_rows (get_trades (add_all empty_ledger
     [stock_order (2024, 1, 1) ''AAPL'' ''Buy'' 100 10 0]) None))"

text \<open>
  Trades of two instruments, and the same frame with the rows of the two instruments
  interleaved differently.
\<close>

definition scenario_two_instruments :: frame where
  "scenario_two_instruments = get_trades (add_all empty_ledger
     [stock_order (2024, 1, 1) ''AAPL'' ''Buy'' 100 10 0,
      stock_order (2024, 1, 2) ''MSFT'' ''Buy'' 50 10 0,
      stock_order (2024, 1, 3) ''AAPL'' ''Sell'' 120 10 0]) None"

definition scenario_two_instruments_shuffled :: frame where
  "scenario_two_instruments_shuffled =
     Frame [frame_rows scenario_two_instruments ! 1, frame_rows scenario_two_instruments ! 0,
            frame_rows scenario_two_instruments ! 2]"

subsection \<open>The specification's aggregate\<close>

text \<open>
  What the specification asks of \<^verbatim>\<open>total_pnl\<close>, in its words: the final cumulative
  realized P&L of each instrument (the value on its chronologically last row), summed
  over the instruments, plus the unrealized P&L.
\<close>

definition final_cumulative_pnl :: "trade list \<Rightarrow> real" where
  "final_cumulative_pnl df =
     sum_list (map (\<lambda>t. realized_pnl (snd (last (ticker_trades t df)))) (unique (map ticker df)))
     + sum_list (map unrealized_pnl df)"

text \<open>
  What the specification asks of the drawdown: the same computation over the rows in
  ascending order of their timestamp.
\<close>

definition max_drawdown_by_timestamp :: "trade list \<Rightarrow> pyfloat" where
  "max_drawdown_by_timestamp df = max_drawdown (sort_key date df)"


subsection \<open>The replay without its error branches\<close>

text \<open>
  The replay never takes an error branch (shown below), so each of its loops has a
  total counterpart, used to reason about the frames it produces: the state after one
  trade, the row written back, the inner loop and one pass of the outer loop.
\<close>

definition next_state :: "position_state \<Rightarrow> trade \<Rightarrow> position_state" where
  "next_state s tr = (case replay_trade s tr of Inl e \<Rightarrow> s | Inr s' \<Rightarrow> s')"

definition write_back :: "trade \<Rightarrow> position_state \<Rightarrow> trade" where
  "write_back r s = r\<lparr> realized_pnl := st_realized_pnl s, unrealized_pnl := 0 \<rparr>"

fun rows_after :: "position_state \<Rightarrow> (nat \<times> trade) list \<Rightarrow> trade list \<Rightarrow> trade list" where
  "rows_after s [] df = df"
| "rows_after s ((idx, tr) # rest) df =
     rows_after (next_state s tr) rest (df[idx := write_back (df ! idx) (next_state s tr)])"

text \<open>The running variables after a list of trades, from the initial ones.\<close>

definition replayed_state :: "trade list \<Rightarrow> position_state" where
  "replayed_state trs = fold (\<lambda>tr s. next_state s tr) trs init_state"

definition ticker_pass :: "string \<Rightarrow> trade list \<Rightarrow> trade list" where
  "ticker_pass t df = rows_after init_state (ticker_trades t df) df"

text \<open>The rows of one instrument, in the order of the frame.\<close>

definition of_ticker :: "string \<Rightarrow> trade list \<Rightarrow> trade list" where
  "of_ticker t df = filter (\<lambda>r. ticker r = t) df"

text \<open>
  Lines 39-41: what one trade adds to the running realized total, which is the P&L of a
  sell against an open position and nothing otherwise; and these amounts along a list
  of trades.
\<close>

definition close_out_pnl :: "position_state \<Rightarrow> trade \<Rightarrow> real" where
  "close_out_pnl s tr =
     (if trade_type tr \<noteq> ''Buy'' \<and> st_position s > 0
      then (price tr - st_total_cost s / st_position s) * quantity tr - fees tr
      else 0)"

fun contributions :: "position_state \<Rightarrow> trade list \<Rightarrow> real list" where
  "contributions s [] = []"
| "contributions s (tr # rest) = close_out_pnl s tr # contributions (next_state s tr) rest"

section \<open>Properties\<close>

subsection \<open>Risk sizing\<close>

lemma clamp_quarter: "0 \<le> max 0 (min (x::real) (1/4)) \<and> max 0 (min x (1/4)) \<le> 1/4"
  by (cases "x \<le> 1/4") (simp_all add: max_def min_def)

lemma kelly_pct_range:
  assumes "kelly_pct trade_data = Inr k"
  shows "0 \<le> k \<and> k \<le> 1/4"
proof (cases "dict_get (rd_avg_loss trade_data) 0 = 0")
  case True
  with assms show ?thesis by (simp add: kelly_pct_def Let_def)
next
  case False
  with assms obtain x where "k = max 0 (min x (1/4))"
    by (auto simp: kelly_pct_def Let_def split: sum.splits)
  then show ?thesis using clamp_quarter [of x] by simp
qed

lemma kelly_pct_guard_is_avg_loss:
  "kelly_pct trade_data = Inl ZeroDivisionError \<longleftrightarrow>
     dict_get (rd_avg_loss trade_data) 0 \<noteq> 0 \<and> dict_get (rd_avg_win trade_data) 0 = 0"
  by (auto simp: kelly_pct_def Let_def py_div_def)

text \<open>
  Claim C3 (the Kelly computation never divides by zero, returns 0 when \<^verbatim>\<open>avg_win\<close> is 0
  and always a value in [0, 0.25]). The guard of the source tests \<^verbatim>\<open>avg_loss\<close>, the
  division is by \<^verbatim>\<open>avg_win\<close>: with \<^verbatim>\<open>avg_win = 0.0\<close> and \<^verbatim>\<open>avg_loss = 50.0\<close> the
  division is reached and raises, both in the Kelly block and in the whole helper.
\<close>

theorem C3_kelly_raises_on_zero_avg_win:
  "kelly_pct \<lparr> rd_price = Some 100, rd_stop_loss_pct = None, rd_win_rate = Some (1/2),
               rd_avg_win = Some 0, rd_avg_loss = Some 50 \<rparr> = Inl ZeroDivisionError
   \<and> calculate_risk_metrics 10000
        \<lparr> rd_price = Some 100, rd_stop_loss_pct = None, rd_win_rate = Some (1/2),
          rd_avg_win = Some 0, rd_avg_loss = Some 50 \<rparr> = Inl ZeroDivisionError"
  by (simp add: calculate_risk_metrics_def kelly_pct_def dict_get_def py_div_def py_int_def Let_def)


subsection \<open>Evaluating the scenarios\<close>

lemmas scenario_simps = add_all_def add_trade_def next_id_def stock_order_def empty_ledger_def
  get_trades_def frame_rows_def endswith_def dict_get_def Let_def

lemmas replay_simps = calculate_pnl_def unique_def ticker_trades_def replay_trade_def
  init_state_def py_div_def

lemmas metrics_simps = calculate_metrics_def metric_def win_rate_def realized_trades_def
  winning_trades_def losing_trades_def profit_factor_def max_drawdown_def drawdown_def
  cumsum_def expanding_max_def series_min_def

text \<open>
  Claim C7 (scenario A). Buy 10 at 100 and sell 10 at 120 on one instrument, without
  fees: the replay writes 200 on the sell row and 0 on the buy row, and the metrics of
  the replayed frame have a win rate of 100 and the profit factor \<^verbatim>\<open>float('inf')\<close>.
\<close>

theorem C7_scenario_A:
  "\<exists>df m. calculate_pnl scenario_A = Inr (Frame df)
     \<and> map (\<lambda>r. (trade_type r, price r, quantity r, realized_pnl r)) df
         = [(''Sell'', 120, 10, 200), (''Buy'', 100, 10, 0)]
     \<and> calculate_metrics (Frame df) = Inr m
     \<and> metric m ''win_rate'' = Some (Fin 100)
     \<and> metric m ''profit_factor'' = Some PosInf"
  by (simp add: scenario_A_def scenario_simps replay_simps metrics_simps)

text \<open>
  Claim C1 (\<^verbatim>\<open>total_pnl\<close> is the sum over the instruments of the final cumulative realized
  P&L). On scenario B the replay writes the running totals 0, -50 and 0; the position is
  closed with a realized P&L of 0, which is the final cumulative value, but
  \<^verbatim>\<open>calculate_metrics\<close> adds up all rows and reports -50.
\<close>

theorem C1_total_pnl_sums_all_rows:
  "\<exists>df m. calculate_pnl scenario_B = Inr (Frame df)
     \<and> map (\<lambda>r. (trade_type r, realized_pnl r)) df
         = [(''Sell'', 0), (''Sell'', - 50), (''Buy'', 0)]
     \<and> calculate_metrics (Frame df) = Inr m
     \<and> metric m ''total_pnl'' = Some (Fin (- 50))
     \<and> final_cumulative_pnl df = 0"
  by (simp add: scenario_B_def scenario_simps replay_simps metrics_simps final_cumulative_pnl_def)

text \<open>
  Claim C8 (the drawdown is taken over the cumulative series in ascending order of the
  timestamps). \<^verbatim>\<open>calculate_metrics\<close> accumulates in the order of the rows it is given, and
  \<^verbatim>\<open>get_trades\<close> gives the latest trade first: for a gain of 200 followed by a loss of
  100 it reports a maximal drawdown of 0, where the series in timestamp order has -100.
\<close>

theorem C8_drawdown_in_frame_order:
  "\<exists>df m. calculate_pnl scenario_gain_then_loss = Inr (Frame df)
     \<and> map (\<lambda>r. (date r, realized_pnl r)) df
         = [((2024, 1, 4), - 100), ((2024, 1, 3), 0), ((2024, 1, 2), 200), ((2024, 1, 1), 0)]
     \<and> calculate_metrics (Frame df) = Inr m
     \<and> metric m ''max_drawdown'' = Some (Fin 0)
     \<and> max_drawdown_by_timestamp df = Fin (- 100)"
  by (simp add: scenario_gain_then_loss_def scenario_simps replay_simps metrics_simps
      max_drawdown_by_timestamp_def)

text \<open>
  Claim C4 (for the empty trade set the metrics are a complete all-zero snapshot). As
  stated it fails: the dictionary returned for the frame of an empty ledger has none of
  the fields, and neither has the one returned for a frame with columns and no rows.
\<close>

theorem C4_empty_frame_has_no_fields:
  "metric (projr (calculate_metrics (get_trades empty_ledger None))) ''total_trades'' = None
   \<and> metric (projr (calculate_metrics (get_trades empty_ledger None))) ''total_pnl'' = None
   \<and> metric (projr (calculate_metrics (get_trades empty_ledger None))) ''win_rate'' = None
   \<and> metric (projr (calculate_metrics (get_trades empty_ledger None))) ''profit_factor'' = None
   \<and> metric (projr (calculate_metrics (get_trades empty_ledger None))) ''max_drawdown'' = None
   \<and> metric (projr (calculate_metrics (Frame []))) ''total_trades'' = None"
  by (simp add: calculate_metrics_def metric_def get_trades_def empty_ledger_def frame_rows_def)

text \<open>
  Claim C4, amended: for the empty trade set \<^verbatim>\<open>calculate_metrics\<close> returns, without
  raising, the empty dictionary.
\<close>

theorem C4_empty_frame_returns_empty_dict:
  "calculate_metrics (get_trades empty_ledger None) = Inr []
   \<and> calculate_metrics NoColumns = Inr [] \<and> calculate_metrics (Frame []) = Inr []"
  by (simp add: calculate_metrics_def get_trades_def empty_ledger_def frame_rows_def)

text \<open>
  Claim C5 (a row with a negative quantity is rejected; scenario E imports 4 of 5 rows).
  \<^verbatim>\<open>import_from_csv\<close> converts the quantity with \<^verbatim>\<open>float\<close> and \<^verbatim>\<open>add_trade\<close> stores it
  unchecked: all five rows are counted as successful and the third is in the ledger with
  its quantity of -5.
\<close>

theorem C5_import_accepts_negative_quantity:
  "snd (import_from_csv empty_ledger (Some scenario_E)) = (5, 0)
   \<and> length (rows (fst (import_from_csv empty_ledger (Some scenario_E)))) = 5
   \<and> map quantity (rows (fst (import_from_csv empty_ledger (Some scenario_E))))
       = [10, 10, - 5, 10, 10]"
  by (simp add: import_from_csv_def scenario_E_def csv_stock_row_def row_trade_data_def bind_err_def
      row_key_def py_float_def to_datetime_def add_trade_def next_id_def empty_ledger_def
      dict_get_def Let_def)

text \<open>
  Claim C2 (after the replay every Buy row has a realized P&L of 0). As stated it fails:
  a buy that follows a closing sell of the same instrument carries the running total.
\<close>

theorem C2_buy_after_sell_carries_total:
  "map (\<lambda>r. (date r, trade_type r, realized_pnl r))
       (frame_rows (projr (calculate_pnl scenario_buy_after_sell)))
     = [((2024, 1, 3), ''Buy'', 200), ((2024, 1, 2), ''Sell'', 200), ((2024, 1, 1), ''Buy'', 0)]"
  by (simp add: scenario_buy_after_sell_def scenario_simps replay_simps)

subsection \<open>The replay and the metrics never raise\<close>

lemma replay_trade_total: "\<exists>s'. replay_trade s tr = Inr s'"
  by (simp add: replay_trade_def py_div_def Let_def)

lemma replay_trade_next: "replay_trade s tr = Inr (next_state s tr)"
  using replay_trade_total [of s tr] by (auto simp: next_state_def)

lemma replay_rows_total: "replay_rows s tt df = Inr (rows_after s tt df)"
  by (induction s tt df rule: rows_after.induct) (simp_all add: replay_trade_next write_back_def)

lemma calculate_pnl_loop_total: "calculate_pnl_loop ts df = Inr (fold ticker_pass ts df)"
  by (induction ts arbitrary: df) (simp_all add: replay_rows_total ticker_pass_def)

lemma calculate_pnl_total:
  "calculate_pnl (Frame df) = Inr (Frame (fold ticker_pass (unique (map ticker df)) df))"
  by (simp add: calculate_pnl_def calculate_pnl_loop_total)

lemma win_rate_total: "\<exists>w. win_rate df = Inr w"
  by (simp add: win_rate_def py_div_def)

lemma calculate_metrics_total: "\<exists>m. calculate_metrics f = Inr m"
  using win_rate_total [of "frame_rows f"] by (auto simp: calculate_metrics_def Let_def)

text \<open>The running total after a list of trades is the sum of their close-out amounts.\<close>

lemma next_state_realized:
  "st_realized_pnl (next_state s tr) = st_realized_pnl s + close_out_pnl s tr"
  by (simp add: next_state_def replay_trade_def close_out_pnl_def py_div_def Let_def)

lemma realized_total_is_sum_of_contributions:
  "st_realized_pnl (fold (\<lambda>tr s. next_state s tr) trs s)
     = st_realized_pnl s + sum_list (contributions s trs)"
  by (induction trs arbitrary: s) (simp_all add: next_state_realized)

lemma replayed_state_is_sum_of_contributions:
  "st_realized_pnl (replayed_state trs) = sum_list (contributions init_state trs)"
  by (simp add: replayed_state_def realized_total_is_sum_of_contributions init_state_def)

text \<open>Whatever the order of the rows, no value of the drawdown series is positive.\<close>

lemma expanding_max_from_ge:
  "list_all2 (\<lambda>c m'. c \<le> m') cs (expanding_max_from m cs)"
  by (induction cs arbitrary: m) simp_all

lemma expanding_max_ge: "list_all2 (\<lambda>c m. c \<le> m) cs (expanding_max cs)"
  by (cases cs) (simp_all add: expanding_max_def expanding_max_from_ge)

lemma drawdown_nonpos:
  assumes "x \<in> set (drawdown pnl)"
  shows "x \<le> 0"
proof -
  from assms obtain c m where "(c, m) \<in> set (zip (cumsum pnl) (expanding_max (cumsum pnl)))"
    and x: "x = c - m"
    by (auto simp: drawdown_def)
  then have "c \<le> m"
    using expanding_max_ge [of "cumsum pnl"] by (auto simp: list_all2_iff)
  with x show ?thesis by simp
qed

text \<open>
  Claim C6 (a Sell while the open quantity is not positive). Such a sell leaves the
  position, the cost basis and the running realized total as they are, so it
  contributes 0 and its row receives the running total unchanged; the replay of any
  frame of trades returns a frame, and the metrics of that frame are computed without
  an error.
\<close>

theorem C6_sell_without_position:
  assumes "trade_type tr \<noteq> ''Buy''" and "st_position s \<le> 0"
  shows "replay_trade s tr = Inr s
     \<and> replay_rows s ((idx, tr) # rest) rws
         = replay_rows s rest
             (rws[idx := (rws ! idx)\<lparr> realized_pnl := st_realized_pnl s, unrealized_pnl := 0 \<rparr>])
     \<and> (\<exists>out m. calculate_pnl (Frame df) = Inr (Frame out) \<and> calculate_metrics (Frame out) = Inr m)"
proof -
  have step: "replay_trade s tr = Inr s"
    using assms by (simp add: replay_trade_def)
  moreover have "\<exists>out m. calculate_pnl (Frame df) = Inr (Frame out)
                   \<and> calculate_metrics (Frame out) = Inr m"
    using calculate_metrics_total by (simp add: calculate_pnl_total)
  ultimately show ?thesis by simp
qed

theorem C6_sell_without_position_witness:
  "trade_type lone_sell \<noteq> ''Buy'' \<and> st_position init_state \<le> 0
   \<and> replay_trade init_state lone_sell = Inr init_state
   \<and> (\<exists>out m. calculate_pnl (Frame [lone_sell]) = Inr (Frame out)
         \<and> calculate_metrics (Frame out) = Inr m)"
proof -
  have h1: "trade_type lone_sell \<noteq> ''Buy''"
    by (simp add: lone_sell_def scenario_simps)
  have h2: "st_position init_state \<le> 0"
    by (simp add: init_state_def)
  show ?thesis
    using h1 h2 C6_sell_without_position [OF h1 h2, of 0 "[]" "[lone_sell]" "[lone_sell]"]
    by blast
qed

subsection \<open>Independence of the instruments\<close>

text \<open>The inner loop changes the rows it is given labels for, and only their P&L columns.\<close>

lemma length_rows_after [simp]: "length (rows_after s tt df) = length df"
  by (induction s tt df rule: rows_after.induct) simp_all

lemma rows_after_untouched:
  "i \<notin> fst ` set tt \<Longrightarrow> rows_after s tt df ! i = df ! i"
  by (induction s tt df rule: rows_after.induct) auto

lemma ticker_write_back [simp]: "ticker (write_back r s) = ticker r"
  by (simp add: write_back_def)

lemma map_ticker_update:
  "map ticker (df[i := write_back (df ! i) s]) = map ticker df"
  by (cases "i < length df") (simp_all add: list_eq_iff_nth_eq nth_list_update)

lemma map_ticker_rows_after: "map ticker (rows_after s tt df) = map ticker df"
  by (induction s tt df rule: rows_after.induct) (simp_all add: map_ticker_update)

text \<open>Sorting commutes with a relabelling of the rows; the labels of one ticker.\<close>

lemma insort_key_map_commute:
  assumes "\<And>x. f (g x) = h x"
  shows "insort_key f (g x) (map g ys) = map g (insort_key h x ys)"
  by (induction ys) (simp_all add: assms)

lemma sort_key_map_commute:
  assumes "\<And>x. f (g x) = h x"
  shows "sort_key f (map g xs) = map g (sort_key h xs)"
  by (induction xs) (simp_all add: insort_key_map_commute [of f g h, OF assms])

lemma map_snd_filter_enumerate:
  "map snd (filter (\<lambda>(i, r). P r) (enumerate n df)) = filter P df"
  by (induction df arbitrary: n) simp_all

lemma map_fst_filter_enumerate_cong:
  "map ticker df' = map ticker df \<Longrightarrow>
     map fst (filter (\<lambda>(i, r). ticker r = t) (enumerate n df'))
       = map fst (filter (\<lambda>(i, r). ticker r = t) (enumerate n df))"
proof (induction df arbitrary: df' n)
  case Nil
  then show ?case by simp
next
  case (Cons r df)
  then obtain r' rest where "df' = r' # rest" by (cases df') auto
  with Cons show ?case by simp
qed

lemma distinct_fst_filter_enumerate:
  "distinct (map fst (filter Q (enumerate n df)))"
  by (rule distinct_map_filter) simp

lemma nth_of_filter_enumerate:
  "map (\<lambda>i. df ! i) (map fst (filter (\<lambda>(i, r). P r) (enumerate 0 df))) = filter P df"
proof -
  have "map (\<lambda>i. df ! i) (map fst (filter (\<lambda>(i, r). P r) (enumerate 0 df)))
        = map snd (filter (\<lambda>(i, r). P r) (enumerate 0 df))"
    by (auto simp: in_set_enumerate_eq)
  then show ?thesis by (simp add: map_snd_filter_enumerate)
qed

lemma zip_as_relabelled_enumerate:
  assumes "length js = length xs"
  shows "zip js xs = map (\<lambda>(k, r). (js ! k, r)) (enumerate 0 xs)"
  using assms by (auto simp: list_eq_iff_nth_eq nth_enumerate_eq)

text \<open>
  The inner loop over relabelled rows: what it leaves at the labels \<open>js\<close> of a frame is
  what it leaves in the frame of the rows at these labels.
\<close>

lemma rows_after_relabel:
  assumes "distinct js" and "\<forall>j \<in> set js. j < length df" and "\<forall>(k, r) \<in> set T. k < length js"
  shows "map (\<lambda>j. rows_after s (map (\<lambda>(k, r). (js ! k, r)) T) df ! j) js
           = rows_after s T (map (\<lambda>j. df ! j) js)"
  using assms
proof (induction T arbitrary: s df)
  case Nil
  then show ?case by simp
next
  case (Cons a T)
  obtain k r where a: "a = (k, r)" by (cases a)
  from Cons.prems a have k: "k < length js" by simp
  let ?s = "next_state s r"
  let ?df = "df[js ! k := write_back (df ! (js ! k)) ?s]"
  have upd: "map (\<lambda>j. ?df ! j) js = (map (\<lambda>j. df ! j) js)[k := write_back (df ! (js ! k)) ?s]"
    using Cons.prems(1,2) k
    by (auto simp: list_eq_iff_nth_eq nth_list_update nth_eq_iff_index_eq)
  have "map (\<lambda>j. rows_after ?s (map (\<lambda>(k, r). (js ! k, r)) T) ?df ! j) js
          = rows_after ?s T (map (\<lambda>j. ?df ! j) js)"
    using Cons.prems by (intro Cons.IH) auto
  then show ?case using a k by (simp add: upd)
qed


text \<open>
  One pass of the outer loop commutes with the restriction to its ticker, and leaves the
  rows of every other ticker as they are.
\<close>

lemma ticker_trades_single:
  assumes "\<forall>r \<in> set xs. ticker r = t"
  shows "ticker_trades t xs = sort_key (\<lambda>(idx, trade). date trade) (enumerate 0 xs)"
proof -
  have "filter (\<lambda>(idx, trade). ticker trade = t) (enumerate 0 xs) = enumerate 0 xs"
    using assms by (auto simp: filter_id_conv in_set_enumerate_eq)
  then show ?thesis by (simp add: ticker_trades_def)
qed

lemma ticker_trades_relabel:
  "ticker_trades t df
     = map (\<lambda>(k, r). (map fst (filter (\<lambda>(i, r). ticker r = t) (enumerate 0 df)) ! k, r))
         (ticker_trades t (of_ticker t df))"
proof -
  let ?E = "filter (\<lambda>(i, r). ticker r = t) (enumerate 0 df)"
  let ?js = "map fst ?E"
  let ?xs = "of_ticker t df"
  let ?g = "\<lambda>(k, r). (?js ! k, r)"
  have xs: "map snd ?E = ?xs"
    by (simp add: of_ticker_def map_snd_filter_enumerate)
  have len: "length ?js = length ?xs"
    using xs by (metis length_map)
  have "?E = zip ?js (map snd ?E)" by (simp add: zip_map_fst_snd)
  also have "\<dots> = zip ?js ?xs" by (simp only: xs)
  also have "\<dots> = map ?g (enumerate 0 ?xs)"
    by (rule zip_as_relabelled_enumerate [OF len])
  finally have E: "?E = map ?g (enumerate 0 ?xs)" .
  have key: "\<And>x. (\<lambda>(idx, trade). date trade) (?g x) = (\<lambda>(idx, trade). date trade) x"
    by (simp add: split_def)
  have "ticker_trades t df = sort_key (\<lambda>(idx, trade). date trade) ?E"
    by (simp only: ticker_trades_def)
  also have "\<dots> = sort_key (\<lambda>(idx, trade). date trade) (map ?g (enumerate 0 ?xs))"
    by (rule arg_cong [OF E])
  also have "\<dots> = map ?g (sort_key (\<lambda>(idx, trade). date trade) (enumerate 0 ?xs))"
    by (rule sort_key_map_commute
          [of "\<lambda>(idx, trade). date trade" ?g "\<lambda>(idx, trade). date trade", OF key])
  also have "sort_key (\<lambda>(idx, trade). date trade) (enumerate 0 ?xs) = ticker_trades t ?xs"
    by (rule ticker_trades_single [symmetric]) (simp add: of_ticker_def)
  finally show ?thesis .
qed

lemma of_ticker_pass:
  "of_ticker t (ticker_pass t df) = ticker_pass t (of_ticker t df)"
proof -
  let ?E = "filter (\<lambda>(i, r). ticker r = t) (enumerate 0 df)"
  let ?js = "map fst ?E"
  let ?xs = "of_ticker t df"
  let ?T = "ticker_trades t ?xs"
  let ?out = "ticker_pass t df"
  have len: "length ?js = length ?xs"
    by (metis length_map map_snd_filter_enumerate of_ticker_def)
  have dist: "distinct ?js" by (rule distinct_fst_filter_enumerate)
  have bound: "\<forall>j \<in> set ?js. j < length df"
    by (auto simp: in_set_enumerate_eq)
  have "set ?T = set (enumerate 0 ?xs)"
    by (simp add: ticker_trades_single of_ticker_def)
  then have T: "\<forall>(k, r) \<in> set ?T. k < length ?js"
    using len by (auto simp: in_set_enumerate_eq)
  have rows: "map (\<lambda>j. df ! j) ?js = ?xs"
    unfolding of_ticker_def by (rule nth_of_filter_enumerate)
  have "map (\<lambda>j. ?out ! j) ?js = rows_after init_state ?T (map (\<lambda>j. df ! j) ?js)"
    unfolding ticker_pass_def
    by (subst ticker_trades_relabel) (rule rows_after_relabel [OF dist bound T])
  then have main: "map (\<lambda>j. ?out ! j) ?js = ticker_pass t ?xs"
    by (simp only: rows ticker_pass_def)
  have same: "map ticker ?out = map ticker df"
    by (simp add: ticker_pass_def map_ticker_rows_after)
  have "of_ticker t ?out
          = map (\<lambda>j. ?out ! j) (map fst (filter (\<lambda>(i, r). ticker r = t) (enumerate 0 ?out)))"
    unfolding of_ticker_def by (rule nth_of_filter_enumerate [symmetric])
  also have "\<dots> = map (\<lambda>j. ?out ! j) ?js"
    by (simp only: map_fst_filter_enumerate_cong [OF same])
  also note main
  finally show ?thesis .
qed

lemma filter_agree:
  assumes "list_all2 (\<lambda>x y. P x = P y \<and> (P y \<longrightarrow> x = y)) xs ys"
  shows "filter P xs = filter P ys"
  using assms by (induction rule: list_all2_induct) auto

lemma of_ticker_other_pass:
  assumes "u \<noteq> t"
  shows "of_ticker t (ticker_pass u df) = of_ticker t df"
proof -
  let ?out = "ticker_pass u df"
  have len: "length ?out = length df" by (simp add: ticker_pass_def)
  have same: "map ticker ?out = map ticker df"
    by (simp add: ticker_pass_def map_ticker_rows_after)
  have row: "ticker (?out ! i) = ticker (df ! i)
               \<and> (ticker (df ! i) = t \<longrightarrow> ?out ! i = df ! i)" if i: "i < length df" for i
  proof
    have "map ticker ?out ! i = map ticker df ! i" by (simp only: same)
    then show "ticker (?out ! i) = ticker (df ! i)" using i len by simp
  next
    show "ticker (df ! i) = t \<longrightarrow> ?out ! i = df ! i"
    proof
      assume t: "ticker (df ! i) = t"
      have "i \<notin> fst ` set (ticker_trades u df)"
      proof
        assume "i \<in> fst ` set (ticker_trades u df)"
        then obtain r where "(i, r) \<in> set (ticker_trades u df)" by force
        then have "ticker (df ! i) = u"
          by (auto simp: ticker_trades_def in_set_enumerate_eq)
        with t assms show False by simp
      qed
      then show "?out ! i = df ! i" by (simp add: ticker_pass_def rows_after_untouched)
    qed
  qed
  have "list_all2 (\<lambda>x y. (ticker x = t) = (ticker y = t) \<and> (ticker y = t \<longrightarrow> x = y)) ?out df"
    unfolding list_all2_conv_all_nth using len row by simp
  then show ?thesis unfolding of_ticker_def by (rule filter_agree)
qed

lemma of_ticker_fold_pass:
  assumes "distinct ts"
  shows "of_ticker t (fold ticker_pass ts df)
           = (if t \<in> set ts then ticker_pass t (of_ticker t df) else of_ticker t df)"
  using assms
proof (induction ts arbitrary: df)
  case Nil
  then show ?case by simp
next
  case (Cons u ts)
  from Cons.prems have d: "distinct ts" and u: "u \<notin> set ts" by simp_all
  have IH: "of_ticker t (fold ticker_pass ts (ticker_pass u df))
              = (if t \<in> set ts then ticker_pass t (of_ticker t (ticker_pass u df))
                 else of_ticker t (ticker_pass u df))"
    by (rule Cons.IH [OF d])
  show ?case
  proof (cases "u = t")
    case True
    with u have "t \<notin> set ts" by simp
    with IH True show ?thesis by (simp add: of_ticker_pass)
  next
    case False
    then have "of_ticker t (ticker_pass u df) = of_ticker t df"
      by (rule of_ticker_other_pass)
    with IH False show ?thesis by simp
  qed
qed

lemma set_unique [simp]: "set (unique xs) = set xs"
  by (simp add: unique_def)

lemma distinct_unique [simp]: "distinct (unique xs)"
  by (simp add: unique_def)

lemma ticker_pass_Nil [simp]: "ticker_pass t [] = []"
  by (simp add: ticker_pass_def ticker_trades_def)

lemma of_ticker_replayed:
  "of_ticker t (fold ticker_pass (unique (map ticker df)) df) = ticker_pass t (of_ticker t df)"
proof (cases "t \<in> set (map ticker df)")
  case True
  then show ?thesis by (simp add: of_ticker_fold_pass)
next
  case False
  then have "of_ticker t df = []" by (auto simp: of_ticker_def filter_empty_conv)
  with False show ?thesis by (simp add: of_ticker_fold_pass)
qed

lemma map_trade_id_update:
  "map trade_id (df[i := write_back (df ! i) s]) = map trade_id df"
  by (cases "i < length df") (simp_all add: list_eq_iff_nth_eq nth_list_update write_back_def)

lemma map_trade_id_rows_after: "map trade_id (rows_after s tt df) = map trade_id df"
  by (induction s tt df rule: rows_after.induct) (simp_all add: map_trade_id_update)

lemma map_trade_id_fold_pass: "map trade_id (fold ticker_pass ts df) = map trade_id df"
  by (induction ts arbitrary: df) (simp_all add: ticker_pass_def map_trade_id_rows_after)

text \<open>
  Claim C9. When a frame is reordered so that the rows of every instrument keep their
  relative order, the replay returns for both frames, each output frame holds the trades
  of its input row by row, and the replayed rows of every instrument are the same in
  both: every trade receives the same realized P&L.
\<close>

theorem C9_order_across_instruments:
  assumes "\<forall>t. of_ticker t shuffled = of_ticker t df"
  shows "\<exists>out out'. calculate_pnl (Frame df) = Inr (Frame out)
           \<and> calculate_pnl (Frame shuffled) = Inr (Frame out')
           \<and> map trade_id out = map trade_id df
           \<and> map trade_id out' = map trade_id shuffled
           \<and> (\<forall>t. of_ticker t out' = of_ticker t out)"
  using assms by (simp add: calculate_pnl_total of_ticker_replayed map_trade_id_fold_pass)

theorem C9_order_across_instruments_witness:
  "(\<forall>t. of_ticker t (frame_rows scenario_two_instruments_shuffled)
          = of_ticker t (frame_rows scenario_two_instruments))
   \<and> frame_rows scenario_two_instruments_shuffled \<noteq> frame_rows scenario_two_instruments
   \<and> (\<exists>out out'. calculate_pnl (Frame (frame_rows scenario_two_instruments)) = Inr (Frame out)
         \<and> calculate_pnl (Frame (frame_rows scenario_two_instruments_shuffled)) = Inr (Frame out')
         \<and> map trade_id out = map trade_id (frame_rows scenario_two_instruments)
         \<and> map trade_id out' = map trade_id (frame_rows scenario_two_instruments_shuffled)
         \<and> (\<forall>t. of_ticker t out' = of_ticker t out))"
proof -
  have h: "\<forall>t. of_ticker t (frame_rows scenario_two_instruments_shuffled)
                 = of_ticker t (frame_rows scenario_two_instruments)"
    by (simp add: scenario_two_instruments_shuffled_def scenario_two_instruments_def
        scenario_simps of_ticker_def)
  have d: "frame_rows scenario_two_instruments_shuffled \<noteq> frame_rows scenario_two_instruments"
    by (simp add: scenario_two_instruments_shuffled_def scenario_two_instruments_def
        scenario_simps)
  show ?thesis
    using h d C9_order_across_instruments [OF h] by blast
qed

subsection \<open>The row of a trade after the replay\<close>

text \<open>
  The labels that the inner loop visits for a ticker are distinct labels of rows of that
  ticker, so what it writes at a label stays: the running total after the trades up to
  and including the one at that label.
\<close>

lemma ticker_trades_label:
  assumes "(j, r) \<in> set (ticker_trades t df)"
  shows "j < length df \<and> r = df ! j \<and> ticker r = t"
  using assms by (auto simp: ticker_trades_def in_set_enumerate_eq)

lemma distinct_ticker_trades_labels: "distinct (map fst (ticker_trades t df))"
proof -
  let ?E = "filter (\<lambda>(idx, trade). ticker trade = t) (enumerate 0 df)"
  have "distinct (map fst ?E)" by (rule distinct_fst_filter_enumerate)
  then have "distinct ?E \<and> inj_on fst (set ?E)" by (simp add: distinct_map)
  then show ?thesis by (simp add: ticker_trades_def distinct_map)
qed

lemma rows_after_at_label:
  assumes "distinct (map fst T)" and "k < length T" and "\<forall>(j, r) \<in> set T. j < length df"
  shows "rows_after s T df ! fst (T ! k)
           = write_back (df ! fst (T ! k))
               (fold (\<lambda>tr s. next_state s tr) (map snd (take (Suc k) T)) s)"
  using assms
proof (induction T arbitrary: s df k)
  case Nil
  then show ?case by simp
next
  case (Cons a T)
  obtain idx tr where a: "a = (idx, tr)" by (cases a)
  let ?s = "next_state s tr"
  let ?df = "df[idx := write_back (df ! idx) ?s]"
  from Cons.prems a have idx: "idx < length df" and fresh: "idx \<notin> fst ` set T"
    and dist: "distinct (map fst T)" by auto
  show ?case
  proof (cases k)
    case 0
    have "rows_after ?s T ?df ! idx = ?df ! idx"
      using fresh by (rule rows_after_untouched)
    with idx a 0 show ?thesis by simp
  next
    case (Suc n)
    with Cons.prems have n: "n < length T" by simp
    have bound: "\<forall>(j, r) \<in> set T. j < length ?df"
      using Cons.prems(3) by auto
    have IH: "rows_after ?s T ?df ! fst (T ! n)
                = write_back (?df ! fst (T ! n))
                    (fold (\<lambda>tr s. next_state s tr) (map snd (take (Suc n) T)) ?s)"
      by (rule Cons.IH [OF dist n bound])
    have "fst (T ! n) \<in> fst ` set T" using n by (metis imageI nth_mem)
    with fresh have "fst (T ! n) \<noteq> idx" by auto
    then have "?df ! fst (T ! n) = df ! fst (T ! n)" by simp
    with IH a Suc show ?thesis by simp
  qed
qed

lemma ticker_pass_at_label:
  assumes "k < length (ticker_trades t df)" and "ticker_trades t df ! k = (i, tr)"
  shows "ticker_pass t df ! i
           = write_back (df ! i) (replayed_state (map snd (take (Suc k) (ticker_trades t df))))"
proof -
  have "\<forall>(j, r) \<in> set (ticker_trades t df). j < length df"
    using ticker_trades_label by blast
  from rows_after_at_label [OF distinct_ticker_trades_labels assms(1) this, of init_state]
  show ?thesis using assms(2) by (simp add: ticker_pass_def replayed_state_def)
qed


text \<open>
  The passes for the other tickers neither touch the row nor change what the pass for
  its own ticker visits.
\<close>

lemma other_pass_at_index:
  assumes "ticker (df ! i) \<noteq> u"
  shows "ticker_pass u df ! i = df ! i"
proof -
  have "i \<notin> fst ` set (ticker_trades u df)"
  proof
    assume "i \<in> fst ` set (ticker_trades u df)"
    then obtain r where "(i, r) \<in> set (ticker_trades u df)" by force
    then have "ticker (df ! i) = u" using ticker_trades_label by blast
    with assms show False by simp
  qed
  then show ?thesis by (simp add: ticker_pass_def rows_after_untouched)
qed

lemma map_ticker_pass: "map ticker (ticker_pass u df) = map ticker df"
  by (simp add: ticker_pass_def map_ticker_rows_after)

lemma ticker_of_pass:
  assumes "i < length df"
  shows "ticker (ticker_pass u df ! i) = ticker (df ! i)"
proof -
  have "map ticker (ticker_pass u df) ! i = map ticker df ! i"
    by (simp only: map_ticker_pass)
  then show ?thesis using assms by (simp add: ticker_pass_def)
qed

lemma filter_enumerate_agree:
  assumes "list_all2 (\<lambda>x y. P x = P y \<and> (P y \<longrightarrow> x = y)) xs ys"
  shows "filter (\<lambda>(i, r). P r) (enumerate n xs) = filter (\<lambda>(i, r). P r) (enumerate n ys)"
  using assms by (induction arbitrary: n rule: list_all2_induct) auto

lemma other_pass_agrees:
  assumes "u \<noteq> t"
  shows "list_all2 (\<lambda>x y. (ticker x = t) = (ticker y = t) \<and> (ticker y = t \<longrightarrow> x = y))
           (ticker_pass u df) df"
proof -
  have "ticker (ticker_pass u df ! i) = ticker (df ! i)
          \<and> (ticker (df ! i) = t \<longrightarrow> ticker_pass u df ! i = df ! i)" if "i < length df" for i
    using that assms by (auto simp: ticker_of_pass other_pass_at_index)
  then show ?thesis
    unfolding list_all2_conv_all_nth by (simp add: ticker_pass_def)
qed

lemma ticker_trades_other_pass:
  assumes "u \<noteq> t"
  shows "ticker_trades t (ticker_pass u df) = ticker_trades t df"
  unfolding ticker_trades_def
  by (rule arg_cong [where f = "sort_key (\<lambda>(idx, trade). date trade)"])
     (rule filter_enumerate_agree [OF other_pass_agrees [OF assms]])

lemma fold_other_passes_at_index:
  assumes "ticker (df ! i) \<notin> set ts" and "i < length df"
  shows "fold ticker_pass ts df ! i = df ! i"
  using assms
proof (induction ts arbitrary: df)
  case Nil
  then show ?case by simp
next
  case (Cons u ts)
  from Cons.prems have u: "ticker (df ! i) \<noteq> u" by auto
  then have same: "ticker_pass u df ! i = df ! i" by (rule other_pass_at_index)
  have "fold ticker_pass ts (ticker_pass u df) ! i = ticker_pass u df ! i"
    using Cons.prems same by (intro Cons.IH) (auto simp: ticker_pass_def)
  with same show ?case by simp
qed

lemma replayed_row:
  assumes "distinct ts" and "t \<in> set ts"
    and "k < length (ticker_trades t df)" and "ticker_trades t df ! k = (i, tr)"
  shows "fold ticker_pass ts df ! i
           = write_back (df ! i) (replayed_state (map snd (take (Suc k) (ticker_trades t df))))"
  using assms
proof (induction ts arbitrary: df)
  case Nil
  then show ?case by simp
next
  case (Cons u ts)
  from Cons.prems(3,4) have mem: "(i, tr) \<in> set (ticker_trades t df)"
    by (metis nth_mem)
  then have i: "i < length df" and tk: "ticker (df ! i) = t"
    using ticker_trades_label by blast+
  show ?case
  proof (cases "u = t")
    case True
    with Cons.prems(1) have "t \<notin> set ts" by simp
    moreover have "ticker (ticker_pass t df ! i) = t"
      using i tk by (simp add: ticker_of_pass)
    moreover have "i < length (ticker_pass t df)"
      using i by (simp add: ticker_pass_def)
    ultimately have "fold ticker_pass ts (ticker_pass t df) ! i = ticker_pass t df ! i"
      by (intro fold_other_passes_at_index) simp_all
    with True show ?thesis
      by (simp add: ticker_pass_at_label [OF Cons.prems(3,4)])
  next
    case False
    then have tt: "ticker_trades t (ticker_pass u df) = ticker_trades t df"
      by (rule ticker_trades_other_pass)
    from False Cons.prems(1,2) have d: "distinct ts" and t: "t \<in> set ts" by auto
    have "fold ticker_pass ts (ticker_pass u df) ! i
            = write_back (ticker_pass u df ! i)
                (replayed_state (map snd (take (Suc k) (ticker_trades t (ticker_pass u df)))))"
      using Cons.prems(3,4) by (intro Cons.IH [OF d t]) (simp_all only: tt)
    moreover have "ticker_pass u df ! i = df ! i"
      using tk False by (intro other_pass_at_index) simp
    ultimately show ?thesis by (simp add: tt)
  qed
qed

lemma calculate_pnl_row:
  assumes "k < length (ticker_trades t df)" and "ticker_trades t df ! k = (i, tr)"
  shows "\<exists>out. calculate_pnl (Frame df) = Inr (Frame out)
           \<and> out ! i = write_back (df ! i)
                          (replayed_state (map snd (take (Suc k) (ticker_trades t df))))"
proof -
  from assms have "(i, tr) \<in> set (ticker_trades t df)" by (metis nth_mem)
  then have i: "i < length df" and tk: "ticker (df ! i) = t"
    using ticker_trades_label by blast+
  from i have "df ! i \<in> set df" by simp
  with tk have "t \<in> ticker ` set df" by blast
  then have "t \<in> set (unique (map ticker df))" by simp
  then show ?thesis
    using replayed_row [OF distinct_unique _ assms] by (simp add: calculate_pnl_total)
qed

lemma next_state_buy:
  assumes "trade_type tr = ''Buy''"
  shows "next_state s tr = s\<lparr> st_position := st_position s + quantity tr,
                               st_total_cost := st_total_cost s + total_cost tr \<rparr>"
  using assms by (simp add: next_state_def replay_trade_def)

lemma replayed_state_snoc:
  "replayed_state (trs @ [tr]) = next_state (replayed_state trs) tr"
  by (simp add: replayed_state_def)

text \<open>
  Claim C2, amended. After the replay the row of a Buy holds the running realized total
  of its instrument as it stood before the Buy: the value on the row of the trade that
  precedes it among the trades of the instrument in timestamp order, and 0 when it is
  the first of them. The Buy itself only adds its quantity to the position and its total
  cost to the cost basis. Stated for an instrument whose trades have distinct
  timestamps, where the order of the replay does not depend on how the sort treats
  equal dates.
\<close>

theorem C2_buy_keeps_running_total:
  assumes "k < length (ticker_trades t df)" and "ticker_trades t df ! k = (i, tr)"
    and "trade_type tr = ''Buy''" and "distinct (map date (of_ticker t df))"
  shows "\<exists>out. calculate_pnl (Frame df) = Inr (Frame out)
     \<and> realized_pnl (out ! i)
         = (if k = 0 then 0 else realized_pnl (out ! fst (ticker_trades t df ! (k - 1))))
     \<and> replay_trade s tr
         = Inr (s\<lparr> st_position := st_position s + quantity tr,
                   st_total_cost := st_total_cost s + total_cost tr \<rparr>)"
proof -
  let ?T = "ticker_trades t df"
  let ?out = "fold ticker_pass (unique (map ticker df)) df"
  have out: "calculate_pnl (Frame df) = Inr (Frame ?out)" by (rule calculate_pnl_total)
  from calculate_pnl_row [OF assms(1,2)] out
  have row: "?out ! i = write_back (df ! i) (replayed_state (map snd (take (Suc k) ?T)))"
    by simp
  have "take (Suc k) ?T = take k ?T @ [(i, tr)]"
    using assms(1,2) by (simp add: take_Suc_conv_app_nth)
  then have "replayed_state (map snd (take (Suc k) ?T))
               = next_state (replayed_state (map snd (take k ?T))) tr"
    by (simp add: replayed_state_snoc)
  then have here: "realized_pnl (?out ! i) = st_realized_pnl (replayed_state (map snd (take k ?T)))"
    using row assms(3) by (simp add: write_back_def next_state_buy)
  have prev: "realized_pnl (?out ! i)
                = (if k = 0 then 0 else realized_pnl (?out ! fst (?T ! (k - 1))))"
  proof (cases k)
    case 0
    with here show ?thesis by (simp add: replayed_state_def init_state_def)
  next
    case (Suc n)
    with assms(1) have n: "n < length ?T" by simp
    obtain j r where jr: "?T ! n = (j, r)" by (cases "?T ! n")
    from calculate_pnl_row [OF n jr] out
    have "?out ! j = write_back (df ! j) (replayed_state (map snd (take (Suc n) ?T)))"
      by simp
    then have "realized_pnl (?out ! j) = st_realized_pnl (replayed_state (map snd (take k ?T)))"
      using Suc by (simp add: write_back_def)
    with here Suc jr show ?thesis by simp
  qed
  have "replay_trade s tr
          = Inr (s\<lparr> st_position := st_position s + quantity tr,
                    st_total_cost := st_total_cost s + total_cost tr \<rparr>)"
    using assms(3) by (simp add: replay_trade_def)
  with out prev show ?thesis by simp
qed


theorem C2_buy_keeps_running_total_witness:
  "2 < length (ticker_trades ''AAPL'' (frame_rows scenario_buy_after_sell))
   \<and> ticker_trades ''AAPL'' (frame_rows scenario_buy_after_sell) ! 2
       = (0, frame_rows scenario_buy_after_sell ! 0)
   \<and> trade_type (frame_rows scenario_buy_after_sell ! 0) = ''Buy''
   \<and> distinct (map date (of_ticker ''AAPL'' (frame_rows scenario_buy_after_sell)))
   \<and> ticker_trades ''AAPL'' (frame_rows scenario_buy_after_sell) ! 1
       = (1, frame_rows scenario_buy_after_sell ! 1)
   \<and> trade_type (frame_rows scenario_buy_after_sell ! 1) = ''Sell''
   \<and> (\<exists>out. calculate_pnl (Frame (frame_rows scenario_buy_after_sell)) = Inr (Frame out)
         \<and> realized_pnl (out ! 0) = realized_pnl (out ! 1)
         \<and> map realized_pnl out = [200, 200, 0])"
proof -
  let ?df = "frame_rows scenario_buy_after_sell"
  have h1: "2 < length (ticker_trades ''AAPL'' ?df)"
    by (simp add: scenario_buy_after_sell_def scenario_simps ticker_trades_def)
  have h2: "ticker_trades ''AAPL'' ?df ! 2 = (0, ?df ! 0)"
    by (simp add: scenario_buy_after_sell_def scenario_simps ticker_trades_def)
  have h3: "trade_type (?df ! 0) = ''Buy''"
    by (simp add: scenario_buy_after_sell_def scenario_simps)
  have h4: "distinct (map date (of_ticker ''AAPL'' ?df))"
    by (simp add: scenario_buy_after_sell_def scenario_simps of_ticker_def)
  have h5: "ticker_trades ''AAPL'' ?df ! 1 = (1, ?df ! 1)"
    by (simp add: scenario_buy_after_sell_def scenario_simps ticker_trades_def)
  have h6: "trade_type (?df ! 1) = ''Sell''"
    by (simp add: scenario_buy_after_sell_def scenario_simps)
  from C2_buy_keeps_running_total [OF h1 h2 h3 h4, of init_state]
  obtain out where o: "calculate_pnl (Frame ?df) = Inr (Frame out)"
    and r: "realized_pnl (out ! 0)
              = (if (2::nat) = 0 then 0
                 else realized_pnl (out ! fst (ticker_trades ''AAPL'' ?df ! (2 - 1))))"
    by blast
  have h5': "fst (ticker_trades ''AAPL'' ?df ! Suc 0) = Suc 0"
    using h5 by simp
  from r have same: "realized_pnl (out ! 0) = realized_pnl (out ! 1)"
    by (simp add: h5')
  have "map realized_pnl (frame_rows (projr (calculate_pnl (Frame ?df)))) = [200, 200, 0]"
    by (simp add: scenario_buy_after_sell_def scenario_simps replay_simps)
  then have vals: "map realized_pnl out = [200, 200, 0]"
    using o by (simp add: frame_rows_def)
  have "\<exists>out. calculate_pnl (Frame ?df) = Inr (Frame out)
          \<and> realized_pnl (out ! 0) = realized_pnl (out ! 1)
          \<and> map realized_pnl out = [200, 200, 0]"
    using o same vals by (intro exI [of _ out] conjI)
  with h1 h2 h3 h4 h5 h6 show ?thesis
    by (intro conjI)
qed

subsection \<open>The ledger\<close>

lemma query_first_absent:
  assumes "in_int64 i" and "i \<notin> set (map (\<lambda>tr. int (trade_id tr)) (rows db))"
  shows "query_first db i = Inr None"
  using assms by (auto simp: query_first_def find_None_iff)

text \<open>
  Claim C10 (for every trade id that is not in the ledger, \<^verbatim>\<open>update_trade\<close> and
  \<^verbatim>\<open>delete_trade\<close> return \<^verbatim>\<open>False\<close> rather than raising). As stated it fails for an id
  outside the signed 64-bit range: the lookup itself raises.
\<close>

theorem C10_huge_id_raises:
  "2 ^ 63 \<notin> set (map (\<lambda>tr. int (trade_id tr))
                  (rows (add_all empty_ledger [stock_order (2024, 1, 1) ''AAPL'' ''Buy'' 100 10 0])))
   \<and> update_trade (add_all empty_ledger [stock_order (2024, 1, 1) ''AAPL'' ''Buy'' 100 10 0])
        (2 ^ 63) [SetPrice 5] = Inl OverflowError
   \<and> delete_trade (add_all empty_ledger [stock_order (2024, 1, 1) ''AAPL'' ''Buy'' 100 10 0])
        (2 ^ 63) = Inl OverflowError"
  by (simp add: update_trade_def delete_trade_def query_first_def in_int64_def
      add_all_def add_trade_def next_id_def empty_ledger_def Let_def)

text \<open>
  Claim C10, amended. For every trade id within the signed 64-bit range that no row of
  the ledger has, \<^verbatim>\<open>update_trade\<close> and \<^verbatim>\<open>delete_trade\<close> return \<^verbatim>\<open>False\<close> without raising,
  whatever the dictionary of updates, and the ledger is the one they were given.
\<close>

theorem C10_absent_id_leaves_ledger:
  assumes "in_int64 i" and "i \<notin> set (map (\<lambda>tr. int (trade_id tr)) (rows db))"
  shows "update_trade db i items = Inr (db, False) \<and> delete_trade db i = Inr (db, False)"
  using query_first_absent [OF assms] by (simp add: update_trade_def delete_trade_def)

theorem C10_absent_id_leaves_ledger_witness:
  "in_int64 7
   \<and> 7 \<notin> set (map (\<lambda>tr. int (trade_id tr))
                (rows (add_all empty_ledger [stock_order (2024, 1, 1) ''AAPL'' ''Buy'' 100 10 0])))
   \<and> update_trade (add_all empty_ledger [stock_order (2024, 1, 1) ''AAPL'' ''Buy'' 100 10 0]) 7
        [SetPrice 5]
      = Inr (add_all empty_ledger [stock_order (2024, 1, 1) ''AAPL'' ''Buy'' 100 10 0], False)
   \<and> delete_trade (add_all empty_ledger [stock_order (2024, 1, 1) ''AAPL'' ''Buy'' 100 10 0]) 7
      = Inr (add_all empty_ledger [stock_order (2024, 1, 1) ''AAPL'' ''Buy'' 100 10 0], False)"
proof -
  have r: "in_int64 7"
    by (simp add: in_int64_def)
  have h: "7 \<notin> set (map (\<lambda>tr. int (trade_id tr))
                    (rows (add_all empty_ledger [stock_order (2024, 1, 1) ''AAPL'' ''Buy'' 100 10 0])))"
    by (simp add: add_all_def add_trade_def next_id_def empty_ledger_def Let_def)
  show ?thesis
    using r h C10_absent_id_leaves_ledger [OF r h, of "[SetPrice 5]"] by simp
qed

end
